theory Spec2Isabelle
  imports Complex_Main
begin

text \<open>
  The bridge front end: the save of a completed order and the recovery of an expired one
  (\<open>CompletedTransactionSaver\<close>), the price quotation of the service hook
  (\<open>calculatePrice\<close>) and the currency swap of the form (\<open>handleSwapCurrencies\<close>).
  Asynchronous code is modelled by what one run does: the calls it sends to the store,
  the actions it performs on its surroundings, and the state of the store afterwards.
\<close>

section \<open>Values of the host language\<close>

text \<open>
  Payloads (\<open>rawApiResponse\<close>, \<open>raw_api_response\<close>, the data of an edge function) are
  untyped JSON values. \<open>JNull\<close> stands for both \<open>null\<close> and \<open>undefined\<close>.
\<close>

datatype json =
    JNull
  | JBool bool
  | JNum rat
  | JStr string
  | JArr "json list"
  | JObj "(string \<times> json) list"

text \<open>The truthiness test behind \<open>!x\<close>, \<open>x || y\<close> and \<open>if (x)\<close>.\<close>

fun truthy :: "json \<Rightarrow> bool" where
  "truthy JNull = False"
| "truthy (JBool b) = b"
| "truthy (JNum n) = (n \<noteq> 0)"
| "truthy (JStr s) = (s \<noteq> [])"
| "truthy (JArr xs) = True"
| "truthy (JObj kvs) = True"

text \<open>Property access \<open>v?.k\<close>: \<open>None\<close> is \<open>undefined\<close>.\<close>

fun get_field :: "json \<Rightarrow> string \<Rightarrow> json option" where
  "get_field (JObj kvs) k = map_of kvs k"
| "get_field v k = None"

text \<open>
  The result of \<open>parseFloat\<close>. The parser itself is a built-in of the language and is
  taken as a parameter wherever the code calls it.
\<close>

datatype jsnum = NaN | NegInfinity | PosInfinity | Finite rat

text \<open>\<open>x <= 0\<close> on numbers: every comparison with \<open>NaN\<close> is false.\<close>

fun le_zero :: "jsnum \<Rightarrow> bool" where
  "le_zero NaN = False"
| "le_zero NegInfinity = True"
| "le_zero PosInfinity = False"
| "le_zero (Finite r) = (r \<le> 0)"

fun starts_with :: "string \<Rightarrow> string \<Rightarrow> bool" where
  "starts_with s [] = True"
| "starts_with [] (c # cs) = False"
| "starts_with (x # xs) (c # cs) = (x = c \<and> starts_with xs cs)"

text \<open>\<open>s.includes(sub)\<close>: \<open>sub\<close> occurs in \<open>s\<close> as a contiguous substring.\<close>

fun includes_str :: "string \<Rightarrow> string \<Rightarrow> bool" where
  "includes_str [] sub = (sub = [])"
| "includes_str (x # xs) sub = (starts_with (x # xs) sub \<or> includes_str xs sub)"

section \<open>Data model\<close>

text \<open>\<open>OrderDetailsType\<close>, with the fields the components read.\<close>

record order_details =
  orderId :: string
  ffOrderToken :: string
  fromCurrency :: string
  toCurrency :: string
  depositAmount :: string
  destinationAddress :: string
  depositAddress :: string
  expiresAt :: "string option"
  currentStatus :: string
  rawApiResponse :: json

text \<open>The metadata snapshot built at save time.\<close>

record device_info =
  width :: int
  height :: int
  platform :: string
  vendor :: string

record client_metadata =
  ip :: string
  user_agent :: string
  languages :: "string list"
  device :: device_info
  simulation :: bool

text \<open>A row of the table \<open>bridge_transactions\<close>.\<close>

record transaction_row =
  ff_order_id :: string
  ff_order_token :: string
  from_currency :: string
  to_currency :: string
  amount :: jsnum
  destination_address :: string
  status :: string
  deposit_address :: string
  client_metadata :: client_metadata
  initial_rate :: int
  expiration_time :: string
  raw_api_response :: json

type_synonym table = "transaction_row list"

text \<open>
  The client environment read by the save operation: \<open>navigator\<close>, \<open>window\<close>, the clock
  (\<open>new Date().toISOString()\<close>) and the built-in \<open>parseFloat\<close>.
\<close>

record browser =
  userAgent :: string
  nav_languages :: "string list option"
  nav_language :: string
  innerWidth :: int
  innerHeight :: int
  nav_platform :: string
  nav_vendor :: string
  now_iso :: string
  parseFloat :: "string \<Rightarrow> jsnum"

section \<open>The persistent store\<close>

text \<open>
  The store is an external collaborator (spec, section 6) with the operations
  \<open>select\<close>, \<open>update\<close> and \<open>insert\<close>. Each call either answers with \<open>{data, error}\<close>
  or rejects (the awaited promise throws). Which calls fail is decided by the
  environment: a \<open>fault\<close> injected for that call. Without a fault the call acts on the
  table.
\<close>

record api_error =
  message :: "string option"

datatype fault = Fails api_error | Rejects

record faults =
  select_fault :: "fault option"
  update_fault :: "fault option"
  insert_fault :: "fault option"

definition no_faults :: faults where
  "no_faults = \<lparr>select_fault = None, update_fault = None, insert_fault = None\<rparr>"

text \<open>\<open>.select(...).eq('ff_order_id', oid).limit(1)\<close>\<close>

definition store_select :: "table \<Rightarrow> string \<Rightarrow> transaction_row list" where
  "store_select db oid = take 1 (filter (\<lambda>r. ff_order_id r = oid) db)"

text \<open>\<open>.update({status: 'completed', raw_api_response: raw}).eq('ff_order_id', oid)\<close>\<close>

definition store_update :: "table \<Rightarrow> string \<Rightarrow> json \<Rightarrow> table" where
  "store_update db oid raw =
     map (\<lambda>r. if ff_order_id r = oid
               then r\<lparr>status := ''completed'', raw_api_response := raw\<rparr> else r) db"

text \<open>
  \<open>.insert(row)\<close>: \<open>ff_order_id\<close> is unique, so a row whose key is already in the table is
  rejected with the uniqueness violation of the database.
\<close>

definition unique_violation :: api_error where
  "unique_violation =
     \<lparr>message = Some ''duplicate key value violates unique constraint''\<rparr>"

definition store_insert :: "table \<Rightarrow> transaction_row \<Rightarrow> api_error + table" where
  "store_insert db row =
     (if \<exists>r \<in> set db. ff_order_id r = ff_order_id row
      then Inl unique_violation else Inr (db @ [row]))"

definition count_for :: "table \<Rightarrow> string \<Rightarrow> nat" where
  "count_for db oid = length (filter (\<lambda>r. ff_order_id r = oid) db)"

section \<open>Observable effects\<close>

record toast =
  title :: string
  description :: string
  variant :: string

datatype action =
    ShowToast toast
  | SetTransactionSaved bool
  | SetCheckingDb bool
  | OnOrderDetailsUpdate order_details

datatype store_call =
    Select string
  | Update string json
  | Insert transaction_row

text \<open>What one run of the save effect leaves behind.\<close>

record save_outcome =
  db_after :: table
  calls :: "store_call list"
  actions :: "action list"

definition destructive :: "string \<Rightarrow> string \<Rightarrow> action" where
  "destructive t d = ShowToast \<lparr>title = t, description = d, variant = ''destructive''\<rparr>"

section \<open>Save on completion\<close>

text \<open>
  \<open>error.message?.includes('duplicate key') || error.message?.includes('unique constraint')\<close>
\<close>

definition is_duplicate :: "api_error \<Rightarrow> bool" where
  "is_duplicate e =
     (case message e of
        None \<Rightarrow> False
      | Some m \<Rightarrow> includes_str m ''duplicate key'' \<or> includes_str m ''unique constraint'')"

definition clientMetadata :: "browser \<Rightarrow> bool \<Rightarrow> client_metadata" where
  "clientMetadata b simulateSuccess =
     \<lparr>ip = ''client-side'',
      user_agent = userAgent b,
      languages = (case nav_languages b of Some ls \<Rightarrow> ls | None \<Rightarrow> [nav_language b]),
      device = \<lparr>width = innerWidth b, height = innerHeight b,
                platform = nav_platform b, vendor = nav_vendor b\<rparr>,
      simulation = simulateSuccess\<rparr>"

definition new_row :: "browser \<Rightarrow> bool \<Rightarrow> order_details \<Rightarrow> transaction_row" where
  "new_row b simulateSuccess od =
     \<lparr>ff_order_id = orderId od,
      ff_order_token = ffOrderToken od,
      from_currency = fromCurrency od,
      to_currency = toCurrency od,
      amount = parseFloat b (depositAmount od),
      destination_address = destinationAddress od,
      status = ''completed'',
      deposit_address = depositAddress od,
      client_metadata = clientMetadata b simulateSuccess,
      initial_rate = 0,
      expiration_time =
        (case expiresAt od of
           Some e \<Rightarrow> if e \<noteq> [] then e else now_iso b
         | None \<Rightarrow> now_iso b),
      raw_api_response = rawApiResponse od\<rparr>"

definition unexpected_error :: action where
  "unexpected_error =
     destructive ''Unexpected Error''
       ''An unexpected error occurred while saving the transaction''"

definition save_failed :: action where
  "save_failed = destructive ''Database Error'' ''Failed to save transaction''"

text \<open>The branch for a record that already exists (lines 89 to 111).\<close>

definition update_existing :: "faults \<Rightarrow> order_details \<Rightarrow> table \<Rightarrow> save_outcome" where
  "update_existing f od db =
     (if truthy (rawApiResponse od) then
        (case update_fault f of
           Some Rejects \<Rightarrow>
             \<lparr>db_after = db,
              calls = [Select (orderId od), Update (orderId od) (rawApiResponse od)],
              actions = [unexpected_error]\<rparr>
         | Some (Fails e) \<Rightarrow>
             \<lparr>db_after = db,
              calls = [Select (orderId od), Update (orderId od) (rawApiResponse od)],
              actions = [SetTransactionSaved True]\<rparr>
         | None \<Rightarrow>
             \<lparr>db_after = store_update db (orderId od) (rawApiResponse od),
              calls = [Select (orderId od), Update (orderId od) (rawApiResponse od)],
              actions = [SetTransactionSaved True]\<rparr>)
      else
        \<lparr>db_after = db, calls = [Select (orderId od)],
         actions = [SetTransactionSaved True]\<rparr>)"

text \<open>
  What the store does with the insert: the injected fault if there is one, otherwise the
  answer of the table.
\<close>

definition insert_reply :: "faults \<Rightarrow> table \<Rightarrow> transaction_row \<Rightarrow> fault + table" where
  "insert_reply f db row =
     (case insert_fault f of
        Some flt \<Rightarrow> Inl flt
      | None \<Rightarrow> (case store_insert db row of Inl e \<Rightarrow> Inl (Fails e) | Inr db' \<Rightarrow> Inr db'))"

text \<open>The branch that inserts a new record (lines 113 to 167).\<close>

definition insert_new ::
  "browser \<Rightarrow> faults \<Rightarrow> bool \<Rightarrow> order_details \<Rightarrow> table \<Rightarrow> save_outcome" where
  "insert_new b f simulateSuccess od db =
     (let row = new_row b simulateSuccess od;
          cs = [Select (orderId od), Insert row]
      in case insert_reply f db row of
           Inl Rejects \<Rightarrow> \<lparr>db_after = db, calls = cs, actions = [save_failed]\<rparr>
         | Inl (Fails e) \<Rightarrow>
             (if is_duplicate e
              then \<lparr>db_after = db, calls = cs, actions = [SetTransactionSaved True]\<rparr>
              else \<lparr>db_after = db, calls = cs, actions = [save_failed]\<rparr>)
         | Inr db' \<Rightarrow>
             \<lparr>db_after = db', calls = cs, actions = [SetTransactionSaved True]\<rparr>)"

text \<open>\<open>saveTransaction\<close>, the asynchronous body of the save effect.\<close>

definition saveTransaction ::
  "browser \<Rightarrow> faults \<Rightarrow> bool \<Rightarrow> order_details \<Rightarrow> table \<Rightarrow> save_outcome" where
  "saveTransaction b f simulateSuccess od db =
     (case select_fault f of
        Some Rejects \<Rightarrow>
          \<lparr>db_after = db, calls = [Select (orderId od)], actions = [unexpected_error]\<rparr>
      | Some (Fails e) \<Rightarrow>
          \<lparr>db_after = db, calls = [Select (orderId od)],
           actions = [destructive ''Database Error''
                        ''Failed to check for existing transaction'']\<rparr>
      | None \<Rightarrow>
          (if store_select db (orderId od) \<noteq> []
           then update_existing f od db
           else insert_new b f simulateSuccess od db))"

text \<open>The properties of the component that the two effects read.\<close>

record props =
  orderDetails :: "order_details option"
  simulateSuccess :: bool
  token :: string
  transactionSaved :: bool
  has_onOrderDetailsUpdate :: bool

definition skipped :: "table \<Rightarrow> save_outcome" where
  "skipped db = \<lparr>db_after = db, calls = [], actions = []\<rparr>"

text \<open>The first effect of \<open>CompletedTransactionSaver\<close> (lines 37 to 184).\<close>

definition saveEffect :: "browser \<Rightarrow> faults \<Rightarrow> props \<Rightarrow> table \<Rightarrow> save_outcome" where
  "saveEffect b f p db =
     (if simulateSuccess p then skipped db
      else if transactionSaved p then skipped db
      else case orderDetails p of
        None \<Rightarrow> skipped db
      | Some od \<Rightarrow>
          if orderId od = [] then skipped db
          else if currentStatus od \<noteq> ''completed'' then skipped db
          else if \<not> truthy (rawApiResponse od) then skipped db
          else saveTransaction b f (simulateSuccess p) od db)"

text \<open>The fault that the environment injects for a call of the store.\<close>

fun fault_of :: "faults \<Rightarrow> store_call \<Rightarrow> fault option" where
  "fault_of f (Select oid) = select_fault f"
| "fault_of f (Update oid raw) = update_fault f"
| "fault_of f (Insert row) = insert_fault f"

text \<open>
  The store errors after which the run still marks the transaction as saved: an error
  answered to the update of a record that exists, and a uniqueness violation answered to
  the insert.
\<close>

fun forgiven :: "store_call \<Rightarrow> fault \<Rightarrow> bool" where
  "forgiven (Update oid raw) (Fails e) = True"
| "forgiven (Insert row) (Fails e) = is_duplicate e"
| "forgiven c flt = False"

section \<open>Recovery of an expired order\<close>

text \<open>
  The environment of one recovery check: the fault of the store query, the time in
  milliseconds after which the query settles (\<open>None\<close>: it never does), and which callback
  the event loop runs first when the query settles in the very millisecond the timer fires.
\<close>

record recovery_env =
  query_fault :: "fault option"
  settles_at :: "nat option"
  tie_query_first :: bool

definition timeout_ms :: nat where
  "timeout_ms = 2000"

text \<open>\<open>Promise.race([queryPromise, timeoutPromise])\<close>: is the query the first to settle?\<close>

definition query_wins :: "recovery_env \<Rightarrow> bool" where
  "query_wins e =
     (case settles_at e of
        None \<Rightarrow> False
      | Some t \<Rightarrow> t < timeout_ms \<or> (t = timeout_ms \<and> tie_query_first e))"

text \<open>
  What one call of \<open>handleExpiredStatus\<close> leaves behind: the value it returns, the actions
  it performs itself, the callbacks it schedules with \<open>setTimeout\<close> (delay, actions), and
  the queries it sends.
\<close>

record recovery_outcome =
  returned :: bool
  immediate :: "action list"
  delayed :: "(nat \<times> action list) list"
  queries :: "store_call list"

definition check_failed :: action where
  "check_failed = destructive ''Error'' ''Failed to check transaction status''"

definition updatedDetails :: "order_details \<Rightarrow> transaction_row \<Rightarrow> order_details" where
  "updatedDetails od dbTransaction =
     od\<lparr>currentStatus := ''completed'',
        rawApiResponse :=
          (if truthy (raw_api_response dbTransaction)
           then raw_api_response dbTransaction else rawApiResponse od)\<rparr>"

definition handleExpiredStatus ::
  "recovery_env \<Rightarrow> props \<Rightarrow> table \<Rightarrow> recovery_outcome" where
  "handleExpiredStatus e p db =
     (case orderDetails p of
        None \<Rightarrow>
          \<lparr>returned = False, immediate = [SetCheckingDb False], delayed = [], queries = []\<rparr>
      | Some od \<Rightarrow>
          if orderId od = [] \<or> token p = [] then
            \<lparr>returned = False, immediate = [SetCheckingDb False], delayed = [],
             queries = []\<rparr>
          else if \<not> query_wins e then
            \<lparr>returned = False, immediate = [check_failed, SetCheckingDb False],
             delayed = [], queries = [Select (orderId od)]\<rparr>
          else
            (case query_fault e of
               Some Rejects \<Rightarrow>
                 \<lparr>returned = False, immediate = [check_failed, SetCheckingDb False],
                  delayed = [], queries = [Select (orderId od)]\<rparr>
             | Some (Fails err) \<Rightarrow>
                 \<lparr>returned = False,
                  immediate = [destructive ''Database Error''
                                 ''Failed to check for transaction status'',
                               SetCheckingDb False],
                  delayed = [], queries = [Select (orderId od)]\<rparr>
             | None \<Rightarrow>
                 (case store_select db (orderId od) of
                    [] \<Rightarrow>
                      \<lparr>returned = False, immediate = [],
                       delayed = [(200, [SetCheckingDb False])],
                       queries = [Select (orderId od)]\<rparr>
                  | dbTransaction # rest \<Rightarrow>
                      if has_onOrderDetailsUpdate p then
                        \<lparr>returned = True, immediate = [],
                         delayed = [(200, [OnOrderDetailsUpdate
                                             (updatedDetails od dbTransaction),
                                           SetCheckingDb False])],
                         queries = [Select (orderId od)]\<rparr>
                      else
                        \<lparr>returned = True, immediate = [SetCheckingDb False],
                         delayed = [], queries = [Select (orderId od)]\<rparr>)))"

text \<open>Every action of a call, those of the scheduled callbacks included, in order.\<close>

definition all_actions :: "recovery_outcome \<Rightarrow> action list" where
  "all_actions r = immediate r @ concat (map snd (delayed r))"

text \<open>
  The second effect (lines 186 to 197). \<open>marker\<close> is
  \<open>hasCheckedExpiredOrderRef.current\<close>, which the component reads and never writes.
\<close>

definition shouldCheckExpiredStatus :: "props \<Rightarrow> string option \<Rightarrow> bool" where
  "shouldCheckExpiredStatus p marker =
     (case orderDetails p of
        None \<Rightarrow> False
      | Some od \<Rightarrow>
          (currentStatus od = ''expired''
             \<or> get_field (rawApiResponse od) ''status'' = Some (JStr ''EXPIRED''))
          \<and> marker \<noteq> Some (orderId od))"

definition expiredEffect ::
  "recovery_env \<Rightarrow> props \<Rightarrow> string option \<Rightarrow> table \<Rightarrow> recovery_outcome option" where
  "expiredEffect e p marker db =
     (if shouldCheckExpiredStatus p marker then Some (handleExpiredStatus e p db) else None)"

text \<open>
  Modelled from the spec: the code that writes \<open>hasCheckedExpiredOrderRef\<close> belongs to the
  owner of the reference, the page that renders the component, and is not among the
  sources. The spec tracks the orders already checked "by a single last-checked-id
  marker": when the check is entered for an order, its id becomes the marker.
\<close>

definition mark_checked :: "props \<Rightarrow> string option \<Rightarrow> string option" where
  "mark_checked p marker =
     (case orderDetails p of None \<Rightarrow> marker | Some od \<Rightarrow> Some (orderId od))"

definition checked_id :: "props \<Rightarrow> string" where
  "checked_id p = (case orderDetails p of None \<Rightarrow> [] | Some od \<Rightarrow> orderId od)"

text \<open>
  A session: the effect runs once for each render whose order details changed. The result
  lists the checks that were entered, each with the id of its order and its outcome.
\<close>

fun session ::
  "string option \<Rightarrow> (recovery_env \<times> props \<times> table) list
     \<Rightarrow> (string \<times> recovery_outcome) list" where
  "session marker [] = []"
| "session marker ((e, p, db) # rs) =
     (case expiredEffect e p marker db of
        None \<Rightarrow> session marker rs
      | Some out \<Rightarrow> (checked_id p, out) # session (mark_checked p marker) rs)"

section \<open>Price quotation\<close>

datatype order_type = Fixed | Float

text \<open>
  What \<open>supabase.functions.invoke\<close> does: it rejects, or it answers \<open>{data, error}\<close>.
\<close>

datatype invoke_reply = InvokeRejects | InvokeReplies json "api_error option"

text \<open>
  The synthetic quote of the fallback. The nested \<open>from\<close> and \<open>to\<close> objects are
  flattened; the fields whose values come out of floating-point arithmetic or the clock
  (\<open>to.amount\<close>, \<open>rate\<close>, \<open>usd\<close>, \<open>btc\<close>, \<open>timestamp\<close>, \<open>expiresAt\<close>) are left out, and
  \<open>mockRate\<close>, from which they are computed, is kept.
\<close>

record mock_quote =
  mock_code :: int
  mock_msg :: string
  mockRate :: int
  mock_from_amount :: string
  mock_from_currency :: string
  mock_from_max :: string
  mock_from_min :: string
  mock_from_network :: string
  mock_to_currency :: string
  mock_to_max :: string
  mock_to_min :: string
  mock_to_network :: string

datatype quote = Backend json | Mock mock_quote

definition mockResponse :: "string \<Rightarrow> string \<Rightarrow> string \<Rightarrow> mock_quote" where
  "mockResponse fromCcy toCcy amt =
     \<lparr>mock_code = 0,
      mock_msg = ''Success'',
      mockRate = (if fromCcy = ''BTC'' then 65000 else 3000),
      mock_from_amount = amt,
      mock_from_currency = fromCcy,
      mock_from_max = ''10'',
      mock_from_min = ''0.001'',
      mock_from_network = ''Network'',
      mock_to_currency = toCcy,
      mock_to_max = ''1000000'',
      mock_to_min = ''0.01'',
      mock_to_network = ''Network''\<rparr>"

definition field_or_undefined :: "json \<Rightarrow> string \<Rightarrow> string \<times> json" where
  "field_or_undefined d k = (k, case get_field d k of None \<Rightarrow> JNull | Some v \<Rightarrow> v)"

definition responseData :: "json \<Rightarrow> json" where
  "responseData d =
     JObj (map (field_or_undefined d)
            [''code'', ''msg'', ''data'', ''timestamp'', ''expiresAt''])"

text \<open>The value returned, and \<open>lastPriceCheck\<close> after the call.\<close>

record price_result =
  quoted :: "quote option"
  lastPriceCheck :: "quote option"

definition price_of :: "quote \<Rightarrow> price_result" where
  "price_of q = \<lparr>quoted = Some q, lastPriceCheck = Some q\<rparr>"

text \<open>
  \<open>calculatePrice\<close>. The arguments are typed \<open>string\<close>; a missing one is the empty string.
  Every \<open>throw\<close> inside the \<open>try\<close> ends in the \<open>catch\<close> that builds the synthetic quote.
\<close>

definition calculatePrice ::
  "(string \<Rightarrow> jsnum) \<Rightarrow> invoke_reply \<Rightarrow> quote option
     \<Rightarrow> string \<Rightarrow> string \<Rightarrow> string \<Rightarrow> order_type \<Rightarrow> price_result" where
  "calculatePrice parse reply prev fromCcy toCcy amt orderType =
     (if fromCcy = [] \<or> toCcy = [] \<or> amt = [] \<or> le_zero (parse amt) then
        \<lparr>quoted = None, lastPriceCheck = prev\<rparr>
      else
        (case reply of
           InvokeRejects \<Rightarrow> price_of (Mock (mockResponse fromCcy toCcy amt))
         | InvokeReplies d err \<Rightarrow>
             if err \<noteq> None then price_of (Mock (mockResponse fromCcy toCcy amt))
             else if \<not> truthy d then price_of (Mock (mockResponse fromCcy toCcy amt))
             else if get_field d ''code'' = Some (JNum 0)
               then price_of (Backend (responseData d))
             else price_of (Mock (mockResponse fromCcy toCcy amt))))"

text \<open>
  A backend failure: every way in which the \<open>try\<close> block of \<open>calculatePrice\<close> throws. The
  call rejects, or it answers with an error, with no data, or with a \<open>code\<close> other than 0.
\<close>

fun backend_failed :: "invoke_reply \<Rightarrow> bool" where
  "backend_failed InvokeRejects = True"
| "backend_failed (InvokeReplies d err) =
     (err \<noteq> None \<or> \<not> truthy d \<or> get_field d ''code'' \<noteq> Some (JNum 0))"

section \<open>Example inputs\<close>

definition example_browser :: browser where
  "example_browser =
     \<lparr>userAgent = ''Mozilla/5.0'', nav_languages = Some [''en-US'', ''en''],
      nav_language = ''en-US'', innerWidth = 1280, innerHeight = 720,
      nav_platform = ''Linux x86_64'', nav_vendor = ''Google Inc.'',
      now_iso = ''2025-01-01T00:00:00.000Z'',
      parseFloat = (\<lambda>s. if s = ''0.01'' then Finite (1 / 100) else NaN)\<rparr>"

definition example_order :: order_details where
  "example_order =
     \<lparr>orderId = ''FF-ABC123'', ffOrderToken = ''tok'', fromCurrency = ''BTC'',
      toCurrency = ''ETH'', depositAmount = ''0.01'', destinationAddress = ''0xabc'',
      depositAddress = ''bc1q'', expiresAt = None, currentStatus = ''completed'',
      rawApiResponse = JObj [(''status'', JStr ''DONE'')]\<rparr>"

definition example_props :: props where
  "example_props =
     \<lparr>orderDetails = Some example_order, simulateSuccess = False, token = ''tok'',
      transactionSaved = False, has_onOrderDetailsUpdate = True\<rparr>"

text \<open>The row that an earlier save of another session left in the store.\<close>

definition example_row :: transaction_row where
  "example_row =
     (new_row example_browser False example_order)
       \<lparr>raw_api_response := JObj [(''foo'', JNum 1)]\<rparr>"

definition expired_order :: "string \<Rightarrow> order_details" where
  "expired_order oid = example_order\<lparr>orderId := oid, currentStatus := ''expired''\<rparr>"

definition expired_props :: "string \<Rightarrow> props" where
  "expired_props oid = example_props\<lparr>orderDetails := Some (expired_order oid)\<rparr>"

definition prompt_env :: recovery_env where
  "prompt_env = \<lparr>query_fault = None, settles_at = Some 120, tie_query_first = False\<rparr>"

text \<open>A render of the component for the expired order \<open>oid\<close>, with an empty store.\<close>

definition render :: "string \<Rightarrow> recovery_env \<times> props \<times> table" where
  "render oid = (prompt_env, expired_props oid, [])"

definition example_parse :: "string \<Rightarrow> jsnum" where
  "example_parse s =
     (if s = ''0.5'' then Finite (1 / 2) else if s = ''0'' then Finite 0
      else if s = ''-1'' then Finite (- 1) else NaN)"

section \<open>The bridge form\<close>

text \<open>A catalog entry, with the fields the swap reads.\<close>

record currency =
  code :: string
  send :: int
  recv :: int

text \<open>The calls of the setters of the bridge context, in the order they are made.\<close>

datatype setter_call =
    SetFromCurrency string
  | SetToCurrency string
  | SetAmount string

text \<open>The part of the form state that the swap touches.\<close>

record bridge_form =
  fromCurrency :: string
  toCurrency :: string
  amount :: string

text \<open>\<open>handleSwapCurrencies\<close> (lines 111 to 126 of the form component).\<close>

definition handleSwapCurrencies :: "currency list \<Rightarrow> bridge_form \<Rightarrow> setter_call list" where
  "handleSwapCurrencies availableCurrencies f =
     (let newFromCurrency =
            find (\<lambda>c. code c = toCurrency f \<and> send c = 1) availableCurrencies;
          newToCurrency =
            find (\<lambda>c. code c = fromCurrency f \<and> recv c = 1) availableCurrencies
      in if newFromCurrency \<noteq> None \<and> newToCurrency \<noteq> None
         then [SetFromCurrency (toCurrency f), SetToCurrency (fromCurrency f), SetAmount []]
         else [])"

text \<open>
  The setters belong to the bridge context, which is not among the sources. Each is taken
  to store its argument in the field it is named after.
\<close>

fun run_setter :: "bridge_form \<Rightarrow> setter_call \<Rightarrow> bridge_form" where
  "run_setter f (SetFromCurrency c) = f\<lparr>fromCurrency := c\<rparr>"
| "run_setter f (SetToCurrency c) = f\<lparr>toCurrency := c\<rparr>"
| "run_setter f (SetAmount a) = f\<lparr>amount := a\<rparr>"

definition swapped :: "currency list \<Rightarrow> bridge_form \<Rightarrow> bridge_form" where
  "swapped availableCurrencies f =
     foldl run_setter f (handleSwapCurrencies availableCurrencies f)"

text \<open>The catalog has an entry for \<open>c\<close> that can be sent, or received.\<close>

definition can_send :: "currency list \<Rightarrow> string \<Rightarrow> bool" where
  "can_send cs c = (\<exists>x \<in> set cs. code x = c \<and> send x = 1)"

definition can_recv :: "currency list \<Rightarrow> string \<Rightarrow> bool" where
  "can_recv cs c = (\<exists>x \<in> set cs. code x = c \<and> recv x = 1)"

text \<open>\<open>MOCK_CURRENCIES\<close>, the fallback catalog of the service hook, and a catalog in which
  \<open>SOL\<close> can be received and not sent.\<close>

definition MOCK_CURRENCIES :: "currency list" where
  "MOCK_CURRENCIES =
     [\<lparr>code = ''BTC'', send = 1, recv = 1\<rparr>,
      \<lparr>code = ''ETH'', send = 1, recv = 1\<rparr>,
      \<lparr>code = ''USDTETH'', send = 1, recv = 1\<rparr>,
      \<lparr>code = ''USDCETH'', send = 1, recv = 1\<rparr>,
      \<lparr>code = ''SOL'', send = 1, recv = 1\<rparr>]"

definition receive_only_sol :: "currency list" where
  "receive_only_sol =
     [\<lparr>code = ''BTC'', send = 1, recv = 1\<rparr>,
      \<lparr>code = ''SOL'', send = 0, recv = 1\<rparr>]"

definition example_form :: bridge_form where
  "example_form = \<lparr>fromCurrency = ''BTC'', toCurrency = ''SOL'', amount = ''0.5''\<rparr>"

section \<open>Facts about the store\<close>

lemma store_select_find:
  "store_select db oid =
     (case find (\<lambda>r. ff_order_id r = oid) db of None \<Rightarrow> [] | Some r \<Rightarrow> [r])"
  by (induction db) (simp_all add: store_select_def)

lemma store_select_empty:
  "store_select db oid = [] \<longleftrightarrow> (\<forall>r \<in> set db. ff_order_id r \<noteq> oid)"
  by (induction db) (simp_all add: store_select_def)

lemma store_select_count:
  "store_select db oid = [] \<longleftrightarrow> count_for db oid = 0"
  by (simp add: store_select_def count_for_def)

lemma length_store_update: "length (store_update db oid raw) = length db"
  by (simp add: store_update_def)

lemma length_filter_map_same:
  "(\<And>r. P (g r) = P r) \<Longrightarrow> length (filter P (map g xs)) = length (filter P xs)"
  by (induction xs) simp_all

lemma count_for_store_update: "count_for (store_update db oid raw) x = count_for db x"
  unfolding store_update_def count_for_def
  by (rule length_filter_map_same) simp

lemma store_select_store_update:
  "store_select (store_update db oid raw) x = [] \<longleftrightarrow> store_select db x = []"
  by (simp add: store_select_count count_for_store_update)

lemma store_insert_fresh:
  "store_select db (ff_order_id row) = [] \<Longrightarrow> store_insert db row = Inr (db @ [row])"
  by (auto simp: store_insert_def store_select_empty)

lemma ff_order_id_new_row: "ff_order_id (new_row b s od) = orderId od"
  by (simp add: new_row_def)

lemma count_for_append: "count_for (db @ [row]) x = count_for db x + (if ff_order_id row = x then 1 else 0)"
  by (simp add: count_for_def)

lemma save_store_cases:
  "db_after (saveTransaction b f s od db) = db
   \<or> (store_select db (orderId od) \<noteq> []
        \<and> db_after (saveTransaction b f s od db) = store_update db (orderId od) (rawApiResponse od))
   \<or> (store_select db (orderId od) = []
        \<and> db_after (saveTransaction b f s od db) = db @ [new_row b s od])"
  by (auto simp: saveTransaction_def update_existing_def insert_new_def insert_reply_def Let_def
        store_insert_fresh ff_order_id_new_row
      split: option.splits fault.splits sum.splits)

section \<open>The save operation\<close>

text \<open>
  Claim C2. The preconditions gate every access to the store. When \<open>simulateSuccess\<close> is
  set, when \<open>transactionSaved\<close> is already true, when the order or its \<open>orderId\<close> is
  missing, when \<open>currentStatus\<close> is not \<open>completed\<close>, or when \<open>rawApiResponse\<close> is absent
  (falsy), the save effect sends no query and no write, performs no action, and leaves the
  store as it was.
\<close>

theorem save_preconditions_gate:
  assumes "simulateSuccess p \<or> transactionSaved p \<or> orderDetails p = None
           \<or> (\<exists>od. orderDetails p = Some od
                 \<and> (orderId od = [] \<or> currentStatus od \<noteq> ''completed''
                      \<or> \<not> truthy (rawApiResponse od)))"
  shows "saveEffect b f p db = \<lparr>db_after = db, calls = [], actions = []\<rparr>"
  using assms by (auto simp: saveEffect_def skipped_def split: option.splits)

text \<open>
  The gate at an order that is still \<open>waiting\<close>, and at a completed order without a payload.
\<close>

theorem save_preconditions_gate_witness:
  "saveEffect example_browser no_faults
     (example_props\<lparr>orderDetails := Some (example_order\<lparr>currentStatus := ''waiting''\<rparr>)\<rparr>)
     [example_row]
   = \<lparr>db_after = [example_row], calls = [], actions = []\<rparr>
   \<and> saveEffect example_browser no_faults
     (example_props\<lparr>orderDetails := Some (example_order\<lparr>rawApiResponse := JNull\<rparr>)\<rparr>) []
   = \<lparr>db_after = [], calls = [], actions = []\<rparr>"
  using save_preconditions_gate [of "example_props\<lparr>orderDetails := Some (example_order\<lparr>currentStatus := ''waiting''\<rparr>)\<rparr>" example_browser no_faults "[example_row]"]
    save_preconditions_gate [of "example_props\<lparr>orderDetails := Some (example_order\<lparr>rawApiResponse := JNull\<rparr>)\<rparr>" example_browser no_faults "[]"]
  by (simp add: example_props_def example_order_def)

text \<open>
  Claim C3. When no record exists for the order and the insert is answered with a store
  error, a save whose error is recognised as a uniqueness violation (its message includes
  \<open>duplicate key\<close> or \<open>unique constraint\<close>) sets the saved flag and shows no notification;
  with any other store error it shows the notification "Database Error / Failed to save
  transaction" and does not set the saved flag. The store is unchanged in both cases.
\<close>

theorem uniqueness_violation_is_success:
  assumes "select_fault f = None"
    and "\<forall>r \<in> set db. ff_order_id r \<noteq> orderId od"
    and "insert_fault f = Some (Fails e)"
  shows "actions (saveTransaction b f s od db) =
           (if is_duplicate e then [SetTransactionSaved True]
            else [ShowToast \<lparr>title = ''Database Error'',
                             description = ''Failed to save transaction'',
                             variant = ''destructive''\<rparr>])
         \<and> calls (saveTransaction b f s od db) = [Select (orderId od), Insert (new_row b s od)]
         \<and> db_after (saveTransaction b f s od db) = db"
  using assms
  by (simp add: saveTransaction_def insert_new_def insert_reply_def Let_def store_select_empty
        save_failed_def destructive_def)

text \<open>
  The two cases at the order \<open>FF-ABC123\<close> and an empty store.
\<close>

theorem uniqueness_violation_is_success_witness:
  "actions (saveTransaction example_browser
              (no_faults\<lparr>insert_fault := Some (Fails unique_violation)\<rparr>)
              False example_order []) = [SetTransactionSaved True]
   \<and> actions (saveTransaction example_browser
              (no_faults\<lparr>insert_fault := Some (Fails \<lparr>message = Some ''permission denied''\<rparr>)\<rparr>)
              False example_order [])
     = [ShowToast \<lparr>title = ''Database Error'', description = ''Failed to save transaction'',
                   variant = ''destructive''\<rparr>]"
  using uniqueness_violation_is_success
          [of "no_faults\<lparr>insert_fault := Some (Fails unique_violation)\<rparr>" "[]"
              example_order unique_violation example_browser False]
        uniqueness_violation_is_success
          [of "no_faults\<lparr>insert_fault := Some (Fails \<lparr>message = Some ''permission denied''\<rparr>)\<rparr>" "[]"
              example_order "\<lparr>message = Some ''permission denied''\<rparr>" example_browser False]
  by (simp add: no_faults_def unique_violation_def is_duplicate_def)

lemma save_count:
  "count_for (db_after (saveTransaction b f s od db)) (orderId od)
     \<le> max 1 (count_for db (orderId od))"
  using save_store_cases [of b f s od db]
  by (auto simp: count_for_store_update count_for_append ff_order_id_new_row
        store_select_count)

lemma save_length_existing:
  "store_select db (orderId od) \<noteq> [] \<Longrightarrow>
     length (db_after (saveTransaction b f s od db)) = length db"
  using save_store_cases [of b f s od db]
  by (auto simp: length_store_update)

lemma save_length_new:
  "length (db_after (saveTransaction b f s od db)) = length db
   \<or> (length (db_after (saveTransaction b f s od db)) = Suc (length db)
        \<and> store_select (db_after (saveTransaction b f s od db)) (orderId od) \<noteq> [])"
  using save_store_cases [of b f s od db]
  by (auto simp: length_store_update store_select_empty ff_order_id_new_row)

lemma save_record_present:
  assumes "select_fault f = None" and "insert_fault f = None"
  shows "store_select (db_after (saveTransaction b f s od db)) (orderId od) \<noteq> []"
proof (cases "store_select db (orderId od) = []")
  case True
  then have "db_after (saveTransaction b f s od db) = db @ [new_row b s od]"
    using assms
    by (simp add: saveTransaction_def insert_new_def insert_reply_def Let_def store_insert_fresh
          ff_order_id_new_row)
  then show ?thesis
    by (simp add: store_select_empty ff_order_id_new_row)
next
  case False
  then show ?thesis
    using save_store_cases [of b f s od db]
    by (auto simp: store_select_store_update)
qed

lemma save_count_exact:
  assumes "select_fault f = None" and "insert_fault f = None"
  shows "count_for (db_after (saveTransaction b f s od db)) (orderId od)
           = max 1 (count_for db (orderId od))"
  using assms
  by (auto simp: saveTransaction_def update_existing_def insert_new_def insert_reply_def Let_def
        store_insert_fresh ff_order_id_new_row count_for_store_update count_for_append
        store_select_count
      split: option.splits fault.splits)

lemma update_existing_ok:
  assumes "select_fault f = None" and "update_fault f = None"
    and "truthy (rawApiResponse od)" and "store_select db (orderId od) \<noteq> []"
  shows "saveTransaction b f s od db =
           \<lparr>db_after = store_update db (orderId od) (rawApiResponse od),
            calls = [Select (orderId od), Update (orderId od) (rawApiResponse od)],
            actions = [SetTransactionSaved True]\<rparr>"
  using assms by (simp add: saveTransaction_def update_existing_def)

lemma store_update_rows:
  assumes "r \<in> set (store_update db oid raw)" and "ff_order_id r = oid"
  shows "status r = ''completed'' \<and> raw_api_response r = raw"
proof -
  from assms(1) obtain r0 where r0: "r0 \<in> set db"
    and r: "r = (if ff_order_id r0 = oid
                 then r0\<lparr>status := ''completed'', raw_api_response := raw\<rparr> else r0)"
    unfolding store_update_def by auto
  show ?thesis
  proof (cases "ff_order_id r0 = oid")
    case True
    with r show ?thesis by simp
  next
    case False
    with r assms(2) show ?thesis by simp
  qed
qed

text \<open>
  Claim C1. Two invocations of \<open>saveTransaction\<close> in succession for the same \<open>orderId\<close>.
  Whatever the store answers, the two together add at most one row, and the store holds at
  most one record of the order unless it held more before. When the store answers the
  first invocation's select and insert and the second invocation's select and update
  without error, the second invocation sends a select and an update and no insert, sets
  the saved flag, and leaves every record of the order with status \<open>completed\<close> and with
  the payload of the second invocation. (The payload is present whenever the effect
  invokes \<open>saveTransaction\<close>, by the gate of claim C2.)
\<close>

theorem save_twice_one_record:
  assumes same: "orderId od2 = orderId od1"
  shows "let r1 = saveTransaction b1 f1 s1 od1 db;
             r2 = saveTransaction b2 f2 s2 od2 (db_after r1)
         in length (db_after r2) \<le> Suc (length db)
          \<and> count_for (db_after r2) (orderId od1) \<le> max 1 (count_for db (orderId od1))
          \<and> (select_fault f1 = None \<and> insert_fault f1 = None
               \<and> select_fault f2 = None \<and> update_fault f2 = None
               \<and> truthy (rawApiResponse od2) \<longrightarrow>
                calls r2 = [Select (orderId od1), Update (orderId od1) (rawApiResponse od2)]
              \<and> actions r2 = [SetTransactionSaved True]
              \<and> db_after r2 = store_update (db_after r1) (orderId od1) (rawApiResponse od2)
              \<and> length (db_after r2) = length (db_after r1)
              \<and> count_for (db_after r2) (orderId od1) = max 1 (count_for db (orderId od1))
              \<and> (\<forall>r \<in> set (db_after r2). ff_order_id r = orderId od1 \<longrightarrow>
                    status r = ''completed'' \<and> raw_api_response r = rawApiResponse od2))"
proof -
  define r1 where "r1 = saveTransaction b1 f1 s1 od1 db"
  define r2 where "r2 = saveTransaction b2 f2 s2 od2 (db_after r1)"
  have len: "length (db_after r2) \<le> Suc (length db)"
  proof (cases "store_select (db_after r1) (orderId od2) = []")
    case True
    then have "length (db_after r1) = length db"
      using save_length_new [of b1 f1 s1 od1 db] same unfolding r1_def by auto
    moreover have "length (db_after r2) \<le> Suc (length (db_after r1))"
      using save_length_new [of b2 f2 s2 od2 "db_after r1"] unfolding r2_def by auto
    ultimately show ?thesis by simp
  next
    case False
    then have "length (db_after r2) = length (db_after r1)"
      unfolding r2_def by (rule save_length_existing)
    moreover have "length (db_after r1) \<le> Suc (length db)"
      using save_length_new [of b1 f1 s1 od1 db] unfolding r1_def by auto
    ultimately show ?thesis by simp
  qed
  have "count_for (db_after r2) (orderId od1) \<le> max 1 (count_for (db_after r1) (orderId od1))"
    using save_count [of b2 f2 s2 od2 "db_after r1"] same unfolding r2_def by simp
  moreover have "count_for (db_after r1) (orderId od1) \<le> max 1 (count_for db (orderId od1))"
    using save_count [of b1 f1 s1 od1 db] unfolding r1_def .
  ultimately have cnt:
    "count_for (db_after r2) (orderId od1) \<le> max 1 (count_for db (orderId od1))"
    by simp
  have upd: "calls r2 = [Select (orderId od1), Update (orderId od1) (rawApiResponse od2)]
              \<and> actions r2 = [SetTransactionSaved True]
              \<and> db_after r2 = store_update (db_after r1) (orderId od1) (rawApiResponse od2)
              \<and> length (db_after r2) = length (db_after r1)
              \<and> count_for (db_after r2) (orderId od1) = max 1 (count_for db (orderId od1))
              \<and> (\<forall>r \<in> set (db_after r2). ff_order_id r = orderId od1 \<longrightarrow>
                    status r = ''completed'' \<and> raw_api_response r = rawApiResponse od2)"
    if h: "select_fault f1 = None" "insert_fault f1 = None"
          "select_fault f2 = None" "update_fault f2 = None" "truthy (rawApiResponse od2)"
  proof -
    have present: "store_select (db_after r1) (orderId od2) \<noteq> []"
      using save_record_present [OF h(1,2), of b1 s1 od1 db] same unfolding r1_def by simp
    have eq: "r2 = \<lparr>db_after = store_update (db_after r1) (orderId od2) (rawApiResponse od2),
            calls = [Select (orderId od2), Update (orderId od2) (rawApiResponse od2)],
            actions = [SetTransactionSaved True]\<rparr>"
      unfolding r2_def by (rule update_existing_ok [OF h(3,4,5) present])
    have c1: "count_for (db_after r1) (orderId od1) = max 1 (count_for db (orderId od1))"
      using save_count_exact [OF h(1,2), of b1 s1 od1 db] unfolding r1_def .
    have a: "calls r2 = [Select (orderId od1), Update (orderId od1) (rawApiResponse od2)]"
      by (simp add: eq same)
    have b: "actions r2 = [SetTransactionSaved True]"
      by (simp add: eq)
    have c: "db_after r2 = store_update (db_after r1) (orderId od1) (rawApiResponse od2)"
      by (simp add: eq same)
    have d: "length (db_after r2) = length (db_after r1)"
      by (simp add: c length_store_update)
    have e: "count_for (db_after r2) (orderId od1) = max 1 (count_for db (orderId od1))"
      by (simp add: c count_for_store_update c1)
    have g: "\<forall>r \<in> set (db_after r2). ff_order_id r = orderId od1 \<longrightarrow>
                    status r = ''completed'' \<and> raw_api_response r = rawApiResponse od2"
      unfolding c using store_update_rows by blast
    show ?thesis using a b c d e g by blast
  qed
  have "length (db_after r2) \<le> Suc (length db)
          \<and> count_for (db_after r2) (orderId od1) \<le> max 1 (count_for db (orderId od1))
          \<and> (select_fault f1 = None \<and> insert_fault f1 = None
               \<and> select_fault f2 = None \<and> update_fault f2 = None
               \<and> truthy (rawApiResponse od2) \<longrightarrow>
                calls r2 = [Select (orderId od1), Update (orderId od1) (rawApiResponse od2)]
              \<and> actions r2 = [SetTransactionSaved True]
              \<and> db_after r2 = store_update (db_after r1) (orderId od1) (rawApiResponse od2)
              \<and> length (db_after r2) = length (db_after r1)
              \<and> count_for (db_after r2) (orderId od1) = max 1 (count_for db (orderId od1))
              \<and> (\<forall>r \<in> set (db_after r2). ff_order_id r = orderId od1 \<longrightarrow>
                    status r = ''completed'' \<and> raw_api_response r = rawApiResponse od2))"
    using len cnt upd by blast
  then show ?thesis
    unfolding Let_def r1_def r2_def .
qed

lemmas eval_save =
  saveTransaction_def insert_new_def insert_reply_def update_existing_def store_select_def store_insert_def
  store_update_def new_row_def clientMetadata_def example_browser_def example_order_def
  example_props_def example_row_def no_faults_def Let_def count_for_def
  save_failed_def unexpected_error_def destructive_def

text \<open>
  Saving \<open>FF-ABC123\<close> twice into an empty store: one row, refreshed by the second save.
\<close>

theorem save_twice_one_record_witness:
  "let od2 = example_order\<lparr>rawApiResponse := JObj [(''status'', JStr ''FINISHED'')]\<rparr>;
       r1 = saveTransaction example_browser no_faults False example_order [];
       r2 = saveTransaction example_browser no_faults False od2 (db_after r1)
   in orderId od2 = orderId example_order
    \<and> length (db_after r1) = 1
    \<and> length (db_after r2) = 1
    \<and> calls r2 = [Select ''FF-ABC123'',
                   Update ''FF-ABC123'' (JObj [(''status'', JStr ''FINISHED'')])]
    \<and> actions r2 = [SetTransactionSaved True]
    \<and> map status (db_after r2) = [''completed'']
    \<and> map raw_api_response (db_after r2) = [JObj [(''status'', JStr ''FINISHED'')]]"
  using save_twice_one_record
          [of "example_order\<lparr>rawApiResponse := JObj [(''status'', JStr ''FINISHED'')]\<rparr>"
              example_order example_browser no_faults False "[]"
              example_browser no_faults False]
  by (simp add: eval_save)

text \<open>
  Claim C8, as amended. Every store error that a save encounters is caught, and the store
  is left unchanged. An error on the select, a rejected call, and an error on the insert
  other than a uniqueness violation end in exactly one destructive notification, with the
  saved flag unset. An error answered to the update of a record that already exists is
  only logged: no notification is shown and the saved flag is set, as after a uniqueness
  violation on the insert.
\<close>

theorem save_errors_notify_or_mark:
  assumes "c \<in> set (calls (saveTransaction b f s od db))"
    and "fault_of f c = Some flt"
  shows "db_after (saveTransaction b f s od db) = db
       \<and> (if forgiven c flt
          then actions (saveTransaction b f s od db) = [SetTransactionSaved True]
          else \<exists>t d. actions (saveTransaction b f s od db) =
                 [ShowToast \<lparr>title = t, description = d, variant = ''destructive''\<rparr>])"
proof (cases "select_fault f")
  case (Some sf)
  then show ?thesis
    using assms
    by (cases sf) (auto simp: saveTransaction_def unexpected_error_def destructive_def)
next
  case None
  note sel = None
  show ?thesis
  proof (cases "store_select db (orderId od) = []")
    case True
    with sel assms obtain row where c: "c = Insert row" and ins: "insert_fault f = Some flt"
      by (auto simp: saveTransaction_def insert_new_def insert_reply_def Let_def
            split: option.splits fault.splits sum.splits if_splits)
    show ?thesis
      using sel True ins c
      by (cases flt)
         (auto simp: saveTransaction_def insert_new_def insert_reply_def Let_def save_failed_def
             destructive_def)
  next
    case False
    with sel assms obtain oid raw where c: "c = Update oid raw"
      and upd: "update_fault f = Some flt" and tr: "truthy (rawApiResponse od)"
      by (auto simp: saveTransaction_def update_existing_def
            split: option.splits fault.splits if_splits)
    show ?thesis
      using sel False upd c tr
      by (cases flt)
         (auto simp: saveTransaction_def update_existing_def unexpected_error_def
             destructive_def)
  qed
qed

text \<open>
  Claim C8 as stated fails: the record of \<open>FF-ABC123\<close> exists and the update is answered
  with an error; the run shows no notification and sets the saved flag.
\<close>

theorem update_error_marks_saved:
  "saveTransaction example_browser
     (no_faults\<lparr>update_fault := Some (Fails \<lparr>message = Some ''connection lost''\<rparr>)\<rparr>)
     False example_order [example_row]
   = \<lparr>db_after = [example_row],
      calls = [Select ''FF-ABC123'',
               Update ''FF-ABC123'' (JObj [(''status'', JStr ''DONE'')])],
      actions = [SetTransactionSaved True]\<rparr>"
  by (simp add: eval_save)

text \<open>
  The amended policy at an error on the select and at an error on the update.
\<close>

theorem save_errors_notify_or_mark_witness:
  "actions (saveTransaction example_browser
     (no_faults\<lparr>select_fault := Some (Fails \<lparr>message = Some ''connection lost''\<rparr>)\<rparr>)
     False example_order [example_row])
   = [ShowToast \<lparr>title = ''Database Error'',
                 description = ''Failed to check for existing transaction'',
                 variant = ''destructive''\<rparr>]
   \<and> actions (saveTransaction example_browser
     (no_faults\<lparr>update_fault := Some (Fails \<lparr>message = Some ''connection lost''\<rparr>)\<rparr>)
     False example_order [example_row]) = [SetTransactionSaved True]"
  using save_errors_notify_or_mark
      [of "Select ''FF-ABC123''" example_browser
          "no_faults\<lparr>select_fault := Some (Fails \<lparr>message = Some ''connection lost''\<rparr>)\<rparr>"
          False example_order "[example_row]" "Fails \<lparr>message = Some ''connection lost''\<rparr>"]
    save_errors_notify_or_mark
      [of "Update ''FF-ABC123'' (JObj [(''status'', JStr ''DONE'')])" example_browser
          "no_faults\<lparr>update_fault := Some (Fails \<lparr>message = Some ''connection lost''\<rparr>)\<rparr>"
          False example_order "[example_row]" "Fails \<lparr>message = Some ''connection lost''\<rparr>"]
  by (simp add: eval_save)

section \<open>The recovery check\<close>

lemma query_wins_before:
  "settles_at e = Some t \<Longrightarrow> t < timeout_ms \<Longrightarrow> query_wins e"
  by (simp add: query_wins_def)

lemma query_loses_after:
  "settles_at e = None \<or> (\<exists>t. settles_at e = Some t \<and> timeout_ms < t) \<Longrightarrow> \<not> query_wins e"
  by (auto simp: query_wins_def)

text \<open>
  Claim C4. Recovery when the store has a record of the order. With an order id and a
  token present, the callback \<open>onOrderDetailsUpdate\<close> supplied, and the query answered
  without error before the timer, \<open>handleExpiredStatus\<close> returns \<open>true\<close> and schedules, 200
  milliseconds later, the update of the order followed by the clearing of the checking
  flag. The updated order has \<open>currentStatus = completed\<close> and the \<open>raw_api_response\<close> of the
  record as its \<open>rawApiResponse\<close>, or its own \<open>rawApiResponse\<close> when the record has none (the
  test is \<open>||\<close>: a falsy persisted payload counts as absent); every other field is that
  of the order.
\<close>

theorem recovery_found:
  assumes "orderDetails p = Some od" and "orderId od \<noteq> []" and "token p \<noteq> []"
    and "has_onOrderDetailsUpdate p"
    and "settles_at e = Some t" and "t < timeout_ms" and "query_fault e = None"
    and "find (\<lambda>r. ff_order_id r = orderId od) db = Some row"
  shows "handleExpiredStatus e p db =
           \<lparr>returned = True, immediate = [],
            delayed = [(200, [OnOrderDetailsUpdate (updatedDetails od row),
                              SetCheckingDb False])],
            queries = [Select (orderId od)]\<rparr>
       \<and> currentStatus (updatedDetails od row) = ''completed''
       \<and> rawApiResponse (updatedDetails od row) =
            (if truthy (raw_api_response row) then raw_api_response row
             else rawApiResponse od)
       \<and> orderId (updatedDetails od row) = orderId od
       \<and> ffOrderToken (updatedDetails od row) = ffOrderToken od
       \<and> order_details.fromCurrency (updatedDetails od row) = order_details.fromCurrency od
       \<and> order_details.toCurrency (updatedDetails od row) = order_details.toCurrency od
       \<and> depositAmount (updatedDetails od row) = depositAmount od
       \<and> destinationAddress (updatedDetails od row) = destinationAddress od
       \<and> depositAddress (updatedDetails od row) = depositAddress od
       \<and> expiresAt (updatedDetails od row) = expiresAt od"
proof -
  have "query_wins e"
    using assms(5,6) by (rule query_wins_before)
  moreover have "store_select db (orderId od) = [row]"
    using assms(8) by (simp add: store_select_find)
  ultimately show ?thesis
    using assms(1-4,7) by (simp add: handleExpiredStatus_def updatedDetails_def)
qed

lemmas eval_recovery =
  handleExpiredStatus_def updatedDetails_def query_wins_def timeout_ms_def
  expired_props_def expired_order_def prompt_env_def check_failed_def all_actions_def
  shouldCheckExpiredStatus_def expiredEffect_def mark_checked_def checked_id_def

lemma example_row_simps:
  "ff_order_id example_row = ''FF-ABC123''"
  "raw_api_response example_row = JObj [(''foo'', JNum 1)]"
  by (simp_all add: example_row_def new_row_def example_order_def)

lemma expired_props_simps:
  "orderDetails (expired_props oid) = Some (expired_order oid)"
  "token (expired_props oid) = ''tok''"
  "has_onOrderDetailsUpdate (expired_props oid) = True"
  by (simp_all add: expired_props_def example_props_def)

lemma expired_order_simps:
  "orderId (expired_order oid) = oid"
  "currentStatus (expired_order oid) = ''expired''"
  by (simp_all add: expired_order_def)

lemma prompt_env_simps:
  "settles_at prompt_env = Some 120"
  "query_fault prompt_env = None"
  by (simp_all add: prompt_env_def)

text \<open>
  The example of the spec: the order \<open>FF-ABC123\<close> has expired and the store holds its row
  with payload \<open>{foo: 1}\<close>.
\<close>

theorem recovery_found_witness:
  "handleExpiredStatus prompt_env (expired_props ''FF-ABC123'') [example_row] =
     \<lparr>returned = True, immediate = [],
      delayed = [(200, [OnOrderDetailsUpdate
                          ((expired_order ''FF-ABC123'')
                             \<lparr>currentStatus := ''completed'',
                              rawApiResponse := JObj [(''foo'', JNum 1)]\<rparr>),
                        SetCheckingDb False])],
      queries = [Select ''FF-ABC123'']\<rparr>"
proof -
  have f: "find (\<lambda>r. ff_order_id r = orderId (expired_order ''FF-ABC123'')) [example_row]
             = Some example_row"
    by (simp add: example_row_simps expired_order_simps)
  have t: "(120::nat) < timeout_ms"
    by (simp add: timeout_ms_def)
  have "handleExpiredStatus prompt_env (expired_props ''FF-ABC123'') [example_row] =
     \<lparr>returned = True, immediate = [],
      delayed = [(200, [OnOrderDetailsUpdate
                          (updatedDetails (expired_order ''FF-ABC123'') example_row),
                        SetCheckingDb False])],
      queries = [Select (orderId (expired_order ''FF-ABC123''))]\<rparr>"
    using recovery_found
          [where p = "expired_props ''FF-ABC123''" and od = "expired_order ''FF-ABC123''"
             and e = prompt_env and t = 120 and db = "[example_row]" and row = example_row,
           OF expired_props_simps(1) _ _ _ prompt_env_simps(1) t prompt_env_simps(2) f]
    by (simp add: expired_props_simps expired_order_simps)
  then show ?thesis
    by (simp add: updatedDetails_def example_row_simps expired_order_simps)
qed

text \<open>
  Claim C5. Recovery when the store has no record of the order. Whatever the environment
  does, \<open>handleExpiredStatus\<close> returns \<open>false\<close>, never calls \<open>onOrderDetailsUpdate\<close> (the order
  stays \<open>expired\<close>) and clears the checking flag. When the query is answered in time and
  without error, the flag is cleared by the callback scheduled 200 milliseconds later and
  nothing else happens.
\<close>

theorem recovery_not_found:
  assumes "orderDetails p = Some od"
    and "\<forall>r \<in> set db. ff_order_id r \<noteq> orderId od"
  shows "returned (handleExpiredStatus e p db) = False
       \<and> (\<forall>u. OnOrderDetailsUpdate u \<notin> set (all_actions (handleExpiredStatus e p db)))
       \<and> SetCheckingDb False \<in> set (all_actions (handleExpiredStatus e p db))
       \<and> (orderId od \<noteq> [] \<and> token p \<noteq> [] \<and> query_wins e \<and> query_fault e = None \<longrightarrow>
            handleExpiredStatus e p db =
              \<lparr>returned = False, immediate = [],
               delayed = [(200, [SetCheckingDb False])],
               queries = [Select (orderId od)]\<rparr>)"
proof -
  have "store_select db (orderId od) = []"
    using assms(2) by (simp add: store_select_empty)
  then show ?thesis
    using assms(1)
    by (auto simp: handleExpiredStatus_def all_actions_def check_failed_def destructive_def
          split: option.splits fault.splits)
qed

text \<open>
  The expired order \<open>FF-ABC123\<close> and an empty store.
\<close>

theorem recovery_not_found_witness:
  "handleExpiredStatus prompt_env (expired_props ''FF-ABC123'') [] =
     \<lparr>returned = False, immediate = [], delayed = [(200, [SetCheckingDb False])],
      queries = [Select ''FF-ABC123'']\<rparr>"
proof -
  have w: "query_wins prompt_env"
    by (simp add: query_wins_def prompt_env_def timeout_ms_def)
  show ?thesis
    using recovery_not_found
          [where p = "expired_props ''FF-ABC123''" and od = "expired_order ''FF-ABC123''"
             and db = "[]" and e = prompt_env, OF expired_props_simps(1)] w
    by (simp add: expired_props_simps expired_order_simps prompt_env_simps)
qed

text \<open>
  Claim C6. The timer of the race is 2000 milliseconds. When the query never settles, or
  settles later than the timer, \<open>handleExpiredStatus\<close> ends with the time-out: it shows the
  notification "Error / Failed to check transaction status", clears the checking flag at
  once and returns \<open>false\<close>. The answer of the query is discarded: the outcome is the same
  for every fault \<open>qf\<close> of the query and every content \<open>db'\<close> of the store.
\<close>

theorem recovery_timeout:
  assumes "orderDetails p = Some od" and "orderId od \<noteq> []" and "token p \<noteq> []"
    and "settles_at e = None \<or> (\<exists>t. settles_at e = Some t \<and> timeout_ms < t)"
  shows "timeout_ms = 2000
       \<and> handleExpiredStatus e p db =
           \<lparr>returned = False,
            immediate = [ShowToast \<lparr>title = ''Error'',
                                    description = ''Failed to check transaction status'',
                                    variant = ''destructive''\<rparr>,
                         SetCheckingDb False],
            delayed = [], queries = [Select (orderId od)]\<rparr>
       \<and> handleExpiredStatus (e\<lparr>query_fault := qf\<rparr>) p db' = handleExpiredStatus e p db"
proof -
  have "\<not> query_wins e"
    using assms(4) by (rule query_loses_after)
  moreover have "\<not> query_wins (e\<lparr>query_fault := qf\<rparr>)"
    using assms(4) by (auto simp: query_wins_def)
  ultimately show ?thesis
    using assms(1-3)
    by (simp add: handleExpiredStatus_def check_failed_def destructive_def timeout_ms_def)
qed

text \<open>
  A query that settles after 2500 milliseconds, and one that never settles.
\<close>

theorem recovery_timeout_witness:
  "handleExpiredStatus (prompt_env\<lparr>settles_at := Some 2500\<rparr>)
     (expired_props ''FF-ABC123'') [example_row] =
     \<lparr>returned = False,
      immediate = [ShowToast \<lparr>title = ''Error'',
                              description = ''Failed to check transaction status'',
                              variant = ''destructive''\<rparr>,
                   SetCheckingDb False],
      delayed = [], queries = [Select ''FF-ABC123'']\<rparr>
   \<and> handleExpiredStatus (prompt_env\<lparr>settles_at := None\<rparr>)
     (expired_props ''FF-ABC123'') [] =
     handleExpiredStatus (prompt_env\<lparr>settles_at := Some 2500\<rparr>)
     (expired_props ''FF-ABC123'') [example_row]"
proof -
  have late: "settles_at (prompt_env\<lparr>settles_at := Some 2500\<rparr>) = None
      \<or> (\<exists>t. settles_at (prompt_env\<lparr>settles_at := Some 2500\<rparr>) = Some t \<and> timeout_ms < t)"
    by (simp add: timeout_ms_def)
  have never: "settles_at (prompt_env\<lparr>settles_at := None\<rparr>) = None
      \<or> (\<exists>t. settles_at (prompt_env\<lparr>settles_at := None\<rparr>) = Some t \<and> timeout_ms < t)"
    by simp
  have ne: "orderId (expired_order ''FF-ABC123'') \<noteq> []" "token (expired_props ''FF-ABC123'') \<noteq> []"
    by (simp_all add: expired_props_simps expired_order_simps)
  show ?thesis
    using recovery_timeout [OF expired_props_simps(1) ne late,
        where qf = None and db = "[example_row]" and db' = "[example_row]"]
      recovery_timeout [OF expired_props_simps(1) ne never,
        where qf = None and db = "[]" and db' = "[]"]
    by (simp add: expired_order_simps)
qed

section \<open>Sessions of the recovery check\<close>

lemma no_check_for_marked:
  "checked_id p = x \<Longrightarrow> expiredEffect e p (Some x) db = None"
  by (auto simp: expiredEffect_def shouldCheckExpiredStatus_def checked_id_def
        split: option.splits)

lemma mark_checked_entered:
  "expiredEffect e p marker db = Some out \<Longrightarrow> mark_checked p marker = Some (checked_id p)"
  by (auto simp: expiredEffect_def shouldCheckExpiredStatus_def checked_id_def
        mark_checked_def split: option.splits if_splits)

lemma session_marked:
  "\<forall>r \<in> set rs. checked_id (fst (snd r)) = x \<Longrightarrow> session (Some x) rs = []"
proof (induction rs)
  case Nil
  then show ?case by simp
next
  case (Cons r rs)
  obtain e p db where r: "r = (e, p, db)"
    by (cases r) auto
  with Cons.prems have "checked_id p = x"
    by simp
  then have "expiredEffect e p (Some x) db = None"
    by (rule no_check_for_marked)
  with Cons r show ?case
    by simp
qed

lemma session_single:
  "\<forall>r \<in> set rs. checked_id (fst (snd r)) = x \<Longrightarrow> length (session marker rs) \<le> 1"
proof (induction rs arbitrary: marker)
  case Nil
  then show ?case by simp
next
  case (Cons r rs)
  obtain e p db where r: "r = (e, p, db)"
    by (cases r) auto
  have rest: "\<forall>r \<in> set rs. checked_id (fst (snd r)) = x"
    using Cons.prems by simp
  have px: "checked_id p = x"
    using Cons.prems r by simp
  show ?case
  proof (cases "expiredEffect e p marker db")
    case None
    with r Cons.IH [OF rest] show ?thesis by simp
  next
    case (Some out)
    then have "mark_checked p marker = Some x"
      using mark_checked_entered px by blast
    with Some r session_marked [OF rest] show ?thesis by simp
  qed
qed

lemma session_head:
  "session marker rs = (i, out) # rest \<Longrightarrow> marker \<noteq> Some i"
proof (induction rs arbitrary: marker)
  case Nil
  then show ?case by simp
next
  case (Cons r rs)
  obtain e p db where r: "r = (e, p, db)"
    by (cases r) auto
  show ?case
  proof (cases "expiredEffect e p marker db")
    case None
    with r Cons show ?thesis by simp
  next
    case (Some o')
    with r Cons.prems have "i = checked_id p"
      by simp
    with Some show ?thesis
      using no_check_for_marked [of p i e db] by auto
  qed
qed

lemma session_distinct_adj: "distinct_adj (map fst (session marker rs))"
proof (induction rs arbitrary: marker)
  case Nil
  then show ?case by simp
next
  case (Cons r rs)
  obtain e p db where r: "r = (e, p, db)"
    by (cases r) auto
  show ?case
  proof (cases "expiredEffect e p marker db")
    case None
    with r Cons.IH show ?thesis by simp
  next
    case (Some out)
    then have m: "mark_checked p marker = Some (checked_id p)"
      by (rule mark_checked_entered)
    have "distinct_adj (checked_id p # map fst (session (Some (checked_id p)) rs))"
    proof (cases "session (Some (checked_id p)) rs")
      case Nil
      then show ?thesis by simp
    next
      case (Cons a as)
      obtain i o' where a: "a = (i, o')" by (cases a) auto
      with Cons have "i \<noteq> checked_id p"
        using session_head [of "Some (checked_id p)" rs i o' as] by auto
      moreover have "distinct_adj (map fst (session (Some (checked_id p)) rs))"
        by (rule Cons.IH)
      ultimately show ?thesis
        using Cons a by (simp add: distinct_adj_Cons)
    qed
    with Some r m show ?thesis by simp
  qed
qed

text \<open>
  Claim C7, as amended. The marker holds one id, the last one checked. Provided the owner
  of the marker records the id when the check is entered, the check is never entered
  twice in a row for the same order id: between two checks of one order a check of
  another order was entered. In a session whose renders all carry the order id \<open>x\<close> the
  check is entered at most once, and once the marker holds \<open>x\<close> no render of that order
  enters it again, whatever the outcome of the check and whatever the order has become.
\<close>

theorem recovery_check_not_repeated:
  "distinct_adj (map fst (session marker rs))
   \<and> ((\<forall>r \<in> set rs. checked_id (fst (snd r)) = x) \<longrightarrow>
        length (session marker rs) \<le> 1 \<and> session (Some x) rs = [])"
  using session_distinct_adj session_single session_marked by blast

lemma render_enters:
  "marker \<noteq> Some oid \<Longrightarrow>
     session marker (render oid # rs) =
       (oid, handleExpiredStatus prompt_env (expired_props oid) []) # session (Some oid) rs"
  by (simp add: render_def expiredEffect_def shouldCheckExpiredStatus_def
        expired_props_simps expired_order_simps checked_id_def mark_checked_def)

lemma render_skips:
  "session (Some oid) (render oid # rs) = session (Some oid) rs"
  by (simp add: render_def expiredEffect_def shouldCheckExpiredStatus_def
        expired_props_simps expired_order_simps)

text \<open>
  Claim C7 as stated fails: in a session that renders the expired order \<open>A\<close>, then \<open>B\<close>,
  then \<open>A\<close> again, the check is entered twice for \<open>A\<close>; the marker held \<open>B\<close> in between.
\<close>

theorem recovery_check_reentered:
  "map fst (session None [render ''A'', render ''B'', render ''A'']) = [''A'', ''B'', ''A'']"
  by (simp add: render_enters)

text \<open>
  Three renders of the expired order \<open>A\<close> enter one check; none is entered once the marker
  holds \<open>A\<close>.
\<close>

theorem recovery_check_not_repeated_witness:
  "map fst (session None [render ''A'', render ''A'', render ''A'']) = [''A'']
   \<and> session (Some ''A'') [render ''A'', render ''A''] = []"
  using recovery_check_not_repeated
          [of None "[render ''A'', render ''A'', render ''A'']" "''A''"]
        recovery_check_not_repeated
          [of "Some ''A''" "[render ''A'', render ''A'']" "''A''"]
  by (simp add: render_enters render_skips)

section \<open>The quote and the swap\<close>

text \<open>
  Claim C9. \<open>calculatePrice\<close> returns \<open>null\<close> exactly when \<open>fromCurrency\<close>, \<open>toCurrency\<close> or
  \<open>amount\<close> is missing or \<open>parseFloat(amount) <= 0\<close>. For every other input it returns a
  quote: when the backend fails, the synthetic quote with rate 65000 if \<open>fromCurrency\<close> is
  \<open>BTC\<close> and 3000 otherwise; when it does not, the quote of the backend.
\<close>

theorem quote_null_contract:
  "(quoted (calculatePrice parse reply prev fromCcy toCcy amt orderType) = None)
     = (fromCcy = [] \<or> toCcy = [] \<or> amt = [] \<or> le_zero (parse amt))
   \<and> (fromCcy \<noteq> [] \<and> toCcy \<noteq> [] \<and> amt \<noteq> [] \<and> \<not> le_zero (parse amt)
        \<and> backend_failed reply \<longrightarrow>
        (\<exists>m. quoted (calculatePrice parse reply prev fromCcy toCcy amt orderType)
                = Some (Mock m)
            \<and> mockRate m = (if fromCcy = ''BTC'' then 65000 else 3000)
            \<and> mock_from_currency m = fromCcy \<and> mock_to_currency m = toCcy
            \<and> mock_from_amount m = amt))
   \<and> (fromCcy \<noteq> [] \<and> toCcy \<noteq> [] \<and> amt \<noteq> [] \<and> \<not> le_zero (parse amt)
        \<and> \<not> backend_failed reply \<longrightarrow>
        (\<exists>d. reply = InvokeReplies d None
            \<and> quoted (calculatePrice parse reply prev fromCcy toCcy amt orderType)
                = Some (Backend (responseData d))))"
  by (cases reply)
     (auto simp: calculatePrice_def price_of_def mockResponse_def)

lemmas eval_price =
  calculatePrice_def price_of_def mockResponse_def example_parse_def responseData_def
  field_or_undefined_def

text \<open>
  An amount of zero and a missing currency give \<open>null\<close>; a rejected call and an error
  answer give the synthetic quote at both rates; a good answer gives the backend's quote.
\<close>

theorem quote_null_contract_witness:
  "quoted (calculatePrice example_parse InvokeRejects None ''BTC'' ''ETH'' ''0'' Fixed) = None
   \<and> quoted (calculatePrice example_parse InvokeRejects None [] ''ETH'' ''0.5'' Fixed) = None
   \<and> (\<exists>m. quoted (calculatePrice example_parse InvokeRejects None ''BTC'' ''ETH'' ''0.5'' Fixed)
             = Some (Mock m) \<and> mockRate m = 65000)
   \<and> (\<exists>m. quoted (calculatePrice example_parse
               (InvokeReplies JNull (Some \<lparr>message = Some ''boom''\<rparr>)) None
               ''ETH'' ''BTC'' ''0.5'' Float)
             = Some (Mock m) \<and> mockRate m = 3000)
   \<and> quoted (calculatePrice example_parse
               (InvokeReplies (JObj [(''code'', JNum 0), (''msg'', JStr ''OK'')]) None) None
               ''ETH'' ''BTC'' ''0.5'' Float)
       = Some (Backend (JObj [(''code'', JNum 0), (''msg'', JStr ''OK''), (''data'', JNull),
                              (''timestamp'', JNull), (''expiresAt'', JNull)]))"
  using quote_null_contract [of example_parse InvokeRejects None "''BTC''" "''ETH''" "''0''" Fixed]
    quote_null_contract [of example_parse InvokeRejects None "[]" "''ETH''" "''0.5''" Fixed]
    quote_null_contract [of example_parse InvokeRejects None "''BTC''" "''ETH''" "''0.5''" Fixed]
    quote_null_contract [of example_parse
       "InvokeReplies JNull (Some \<lparr>message = Some ''boom''\<rparr>)" None "''ETH''" "''BTC''" "''0.5''" Float]
    quote_null_contract [of example_parse
       "InvokeReplies (JObj [(''code'', JNum 0), (''msg'', JStr ''OK'')]) None" None
       "''ETH''" "''BTC''" "''0.5''" Float]
  by (simp add: eval_price)

lemma find_some_iff: "find P xs \<noteq> None \<longleftrightarrow> (\<exists>x \<in> set xs. P x)"
  by (auto simp: find_None_iff)

text \<open>
  Claim C10. The swap calls the setters exactly when the catalog has an entry for the
  current \<open>toCurrency\<close> with \<open>send = 1\<close> and an entry for the current \<open>fromCurrency\<close> with
  \<open>recv = 1\<close>. It then sets \<open>fromCurrency\<close> to the old \<open>toCurrency\<close>, \<open>toCurrency\<close> to the old
  \<open>fromCurrency\<close> and \<open>amount\<close> to the empty string; otherwise it calls no setter and the
  three fields stay as they were.
\<close>

theorem swap_guard:
  "handleSwapCurrencies cs f =
     (if can_send cs (toCurrency f) \<and> can_recv cs (fromCurrency f)
      then [SetFromCurrency (toCurrency f), SetToCurrency (fromCurrency f), SetAmount []]
      else [])
   \<and> swapped cs f =
     (if can_send cs (toCurrency f) \<and> can_recv cs (fromCurrency f)
      then \<lparr>fromCurrency = toCurrency f, toCurrency = fromCurrency f, amount = []\<rparr>
      else f)"
proof -
  have s: "can_send cs (toCurrency f)
             \<longleftrightarrow> find (\<lambda>c. code c = toCurrency f \<and> send c = 1) cs \<noteq> None"
    unfolding can_send_def by (rule find_some_iff [symmetric])
  have r: "can_recv cs (fromCurrency f)
             \<longleftrightarrow> find (\<lambda>c. code c = fromCurrency f \<and> recv c = 1) cs \<noteq> None"
    unfolding can_recv_def by (rule find_some_iff [symmetric])
  have calls: "handleSwapCurrencies cs f =
     (if can_send cs (toCurrency f) \<and> can_recv cs (fromCurrency f)
      then [SetFromCurrency (toCurrency f), SetToCurrency (fromCurrency f), SetAmount []]
      else [])"
    unfolding s r by (simp add: handleSwapCurrencies_def Let_def)
  show ?thesis
    by (simp add: swapped_def calls)
qed

text \<open>
  With the fallback catalog \<open>BTC\<close> and \<open>SOL\<close> are swapped and the amount is reset; when
  \<open>SOL\<close> cannot be sent nothing changes.
\<close>

theorem swap_guard_witness:
  "swapped MOCK_CURRENCIES example_form
     = \<lparr>fromCurrency = ''SOL'', toCurrency = ''BTC'', amount = []\<rparr>
   \<and> swapped receive_only_sol example_form = example_form
   \<and> handleSwapCurrencies receive_only_sol example_form = []"
  using swap_guard [of MOCK_CURRENCIES example_form]
        swap_guard [of receive_only_sol example_form]
  by (simp add: can_send_def can_recv_def MOCK_CURRENCIES_def receive_only_sol_def
        example_form_def)

end
